theory Spec2Isabelle
  imports Main "HOL-Library.AList"
begin

section \<open>Python values\<close>

text \<open>
  The tools exchange JSON-like Python values: what \<open>response.json()\<close> decodes, what a
  tool returns, and what goes into query and body dictionaries. A dictionary keeps its
  insertion order, so it is an association list; \<open>d[k] = v\<close> is \<open>AList.update\<close>.
\<close>

datatype pyval =
    PNone
  | PBool bool
  | PInt int
  | PStr string
  | PList "pyval list"
  | PDict "(string \<times> pyval) list"

type_synonym pydict = "(string \<times> pyval) list"

definition dict_set :: "string \<Rightarrow> pyval \<Rightarrow> pydict \<Rightarrow> pydict" where
  "dict_set k v d = AList.update k v d"


text \<open>
  Python truthiness of an argument of type \<open>Optional[str]\<close>: \<open>None\<close> and the empty
  string are falsy.
\<close>

fun truthy_str :: "string option \<Rightarrow> bool" where
  "truthy_str None = False"
| "truthy_str (Some s) = (s \<noteq> [])"

text \<open>
  A parameter declared with a default that is not \<open>None\<close> distinguishes a call that
  leaves the argument out from a call that passes a value (possibly \<open>None\<close>).
\<close>

datatype 'a arg = Omitted | Passed 'a

fun arg_default :: "'a \<Rightarrow> 'a arg \<Rightarrow> 'a" where
  "arg_default d Omitted = d"
| "arg_default d (Passed v) = v"

section \<open>config.py: the runtime configuration store\<close>

text \<open>The module-level dictionary \<open>_config\<close> with its two fixed keys.\<close>

record config =
  api_url :: string
  token :: string

definition get_gitlab_api :: "config \<Rightarrow> string" where
  "get_gitlab_api c = api_url c"

definition get_gitlab_token :: "config \<Rightarrow> string" where
  "get_gitlab_token c = token c"

text \<open>
  \<open>set_gitlab_config(api_url=None, token=None)\<close>: each field is written only when the
  argument is truthy.
\<close>

definition set_gitlab_config :: "string option \<Rightarrow> string option \<Rightarrow> config \<Rightarrow> config" where
  "set_gitlab_config a t c =
     (let c1 = (if truthy_str a then c\<lparr>api_url := the a\<rparr> else c) in
      if truthy_str t then c1\<lparr>token := the t\<rparr> else c1)"

definition get_headers :: "config \<Rightarrow> (string \<times> string) list" where
  "get_headers c =
     (let headers = [(''Accept'', ''application/json'')] in
      if token c \<noteq> [] then AList.update ''PRIVATE-TOKEN'' (token c) headers else headers)"

definition is_configured :: "config \<Rightarrow> bool" where
  "is_configured c = (api_url c \<noteq> [] \<and> token c \<noteq> [])"

definition default_api_url :: string where
  "default_api_url = ''https://gitlab.com/api/v4''"

text \<open>
  The tool \<open>configure_gitlab(api_url="https://gitlab.com/api/v4", token=None)\<close>. It
  returns its dictionary and the configuration it leaves behind.
\<close>

definition configure_gitlab :: "string option arg \<Rightarrow> string option \<Rightarrow> config \<Rightarrow> pyval \<times> config" where
  "configure_gitlab a t c =
     (let url = arg_default (Some default_api_url) a in
      if \<not> truthy_str t then
        (PDict [(''error'', PStr ''Token is required''),
                (''message'', PStr (''Please provide your GitLab Personal Access Token. '' @
                   ''Create one at: https://gitlab.com/-/user_settings/personal_access_tokens''))],
         c)
      else
        (PDict [(''status'', PStr ''configured''),
                (''api_url'', (case url of None \<Rightarrow> PNone | Some u \<Rightarrow> PStr u)),
                (''message'', PStr ''GitLab credentials configured successfully. You can now use GitLab tools.'')],
         set_gitlab_config url t c))"

text \<open>The tool \<open>check_gitlab_config()\<close>; \<open>x or "(not set)"\<close> picks the second when \<open>x\<close> is empty.\<close>

definition check_gitlab_config :: "config \<Rightarrow> pyval" where
  "check_gitlab_config c =
     PDict [(''configured'', PBool (is_configured c)),
            (''api_url'', PStr (if api_url c \<noteq> [] then api_url c else ''(not set)'')),
            (''token_set'', PBool (token c \<noteq> [])),
            (''message'', PStr (if is_configured c then ''Ready to use GitLab tools.''
                                else ''Please run configure_gitlab with your token first.''))]"

section \<open>Rendering values as text\<close>

text \<open>\<open>str(n)\<close> for an integer, as f-strings and \<open>str()\<close> print it: decimal, with a minus sign.\<close>

fun str_nat :: "nat \<Rightarrow> string" where
  "str_nat n = (if n < 10 then [''0123456789'' ! n]
                else str_nat (n div 10) @ [''0123456789'' ! (n mod 10)])"

declare str_nat.simps [simp del]

definition str_int :: "int \<Rightarrow> string" where
  "str_int i = (if i < 0 then CHR ''-'' # str_nat (nat (- i)) else str_nat (nat i))"

definition str_bool :: "bool \<Rightarrow> string" where
  "str_bool b = (if b then ''True'' else ''False'')"

text \<open>\<open>str.lower()\<close> on ASCII letters; every other character is kept.\<close>

definition lower_char :: "char \<Rightarrow> char" where
  "lower_char c =
     (case map_of (zip ''ABCDEFGHIJKLMNOPQRSTUVWXYZ'' ''abcdefghijklmnopqrstuvwxyz'') c of
        None \<Rightarrow> c | Some d \<Rightarrow> d)"

definition lower :: "string \<Rightarrow> string" where
  "lower s = map lower_char s"

text \<open>A parameter of type \<open>Union[int, str]\<close>, as \<open>project_id\<close> is in most tools.\<close>

datatype int_or_str = IntId int | StrId string

fun str_id :: "int_or_str \<Rightarrow> string" where
  "str_id (IntId i) = str_int i"
| "str_id (StrId s) = s"

fun opt_str :: "string option \<Rightarrow> pyval" where
  "opt_str None = PNone"
| "opt_str (Some s) = PStr s"

fun opt_bool :: "bool option \<Rightarrow> pyval" where
  "opt_bool None = PNone"
| "opt_bool (Some b) = PBool b"

fun opt_int :: "int option \<Rightarrow> pyval" where
  "opt_int None = PNone"
| "opt_int (Some i) = PInt i"

section \<open>The requests library, as the tools use it\<close>

text \<open>
  \<open>response.json()\<close> can fail in three ways. A body that is not JSON (an empty body
  included) makes the decoder raise \<open>JSONDecodeError\<close>, which requests re-raises as its
  own \<open>JSONDecodeError\<close>. Two other failures of the decoder are not wrapped by requests:
  a \<open>ValueError\<close> for an integer literal beyond the interpreter's digit limit, and a
  \<open>RecursionError\<close> for a body nested too deeply. Each carries the exception's message.
\<close>

datatype json_failure = NotJSON string | DigitLimit string | TooDeep string

text \<open>
  A response carries its status line, the final URL, the body as text (\<open>response.text\<close>),
  and what \<open>response.json()\<close> makes of the body: the decoded value or one of the failures.
\<close>

record response =
  status_code :: nat
  reason :: string
  url :: string
  resp_text :: string
  json_body :: "json_failure + pyval"

text \<open>
  The exceptions that occur. \<open>TransportError\<close> stands for every
  \<open>requests.exceptions.RequestException\<close> that the call itself raises when no response
  is obtained (connection, DNS, timeout, invalid URL). \<open>RequestsJSONDecodeError\<close> is
  \<open>requests.exceptions.JSONDecodeError\<close>, which is both a \<open>RequestException\<close> and a
  \<open>json.JSONDecodeError\<close>. \<open>ValueError\<close>, \<open>RecursionError\<close>, \<open>UnicodeEncodeError\<close>
  and \<open>NameError\<close> are the built-in exceptions; none of them is a \<open>RequestException\<close>.
  Each carries the text that \<open>str(e)\<close> gives.
\<close>

datatype exn =
    HTTPError string response
  | TransportError string
  | RequestsJSONDecodeError string
  | ValueError string
  | RecursionError string
  | UnicodeEncodeError string
  | NameError string
  | Exception string

fun str_exn :: "exn \<Rightarrow> string" where
  "str_exn (HTTPError m r) = m"
| "str_exn (TransportError m) = m"
| "str_exn (RequestsJSONDecodeError m) = m"
| "str_exn (ValueError m) = m"
| "str_exn (RecursionError m) = m"
| "str_exn (UnicodeEncodeError m) = m"
| "str_exn (NameError m) = m"
| "str_exn (Exception m) = m"

fun is_HTTPError :: "exn \<Rightarrow> bool" where
  "is_HTTPError (HTTPError m r) = True"
| "is_HTTPError (TransportError m) = False"
| "is_HTTPError (RequestsJSONDecodeError m) = False"
| "is_HTTPError (ValueError m) = False"
| "is_HTTPError (RecursionError m) = False"
| "is_HTTPError (UnicodeEncodeError m) = False"
| "is_HTTPError (NameError m) = False"
| "is_HTTPError (Exception m) = False"

fun is_RequestException :: "exn \<Rightarrow> bool" where
  "is_RequestException (HTTPError m r) = True"
| "is_RequestException (TransportError m) = True"
| "is_RequestException (RequestsJSONDecodeError m) = True"
| "is_RequestException (ValueError m) = False"
| "is_RequestException (RecursionError m) = False"
| "is_RequestException (UnicodeEncodeError m) = False"
| "is_RequestException (NameError m) = False"
| "is_RequestException (Exception m) = False"

fun is_json_JSONDecodeError :: "exn \<Rightarrow> bool" where
  "is_json_JSONDecodeError (RequestsJSONDecodeError m) = True"
| "is_json_JSONDecodeError (HTTPError m r) = False"
| "is_json_JSONDecodeError (TransportError m) = False"
| "is_json_JSONDecodeError (ValueError m) = False"
| "is_json_JSONDecodeError (RecursionError m) = False"
| "is_json_JSONDecodeError (UnicodeEncodeError m) = False"
| "is_json_JSONDecodeError (NameError m) = False"
| "is_json_JSONDecodeError (Exception m) = False"

datatype http_method = GET | POST | PUT | DELETE

text \<open>
  What a tool hands to \<open>requests.get/post/put/delete\<close>: the URL and the keyword
  arguments \<open>headers\<close>, \<open>params\<close> (query string) and \<open>json\<close> (request body).
\<close>

record request =
  verb :: http_method
  req_url :: string
  headers :: "(string \<times> string) list"
  params :: pydict
  json :: "pydict option"

text \<open>
  What becomes of a request. \<open>NoResponse\<close>: no response is obtained and requests raises a
  \<open>RequestException\<close>. \<open>EncodeFailure\<close>: the request cannot be written, because a header
  value has a character outside Latin-1, and the \<open>UnicodeEncodeError\<close> of the standard
  library's HTTP client passes through requests unwrapped. \<open>Response\<close>: a response arrives.
\<close>

datatype reply = NoResponse string | EncodeFailure string | Response response

definition requests_send :: "(request \<Rightarrow> reply) \<Rightarrow> request \<Rightarrow> exn + response" where
  "requests_send http rq =
     (case http rq of
        NoResponse m \<Rightarrow> Inl (TransportError m)
      | EncodeFailure m \<Rightarrow> Inl (UnicodeEncodeError m)
      | Response r \<Rightarrow> Inr r)"

text \<open>
  \<open>Response.raise_for_status()\<close> builds a message for 4xx and 5xx and raises an
  \<open>HTTPError\<close> when the message is not empty.
\<close>

definition http_error_msg :: "response \<Rightarrow> string" where
  "http_error_msg r =
     (if 400 \<le> status_code r \<and> status_code r < 500 then
        str_nat (status_code r) @ '' Client Error: '' @ reason r @ '' for url: '' @ url r
      else if 500 \<le> status_code r \<and> status_code r < 600 then
        str_nat (status_code r) @ '' Server Error: '' @ reason r @ '' for url: '' @ url r
      else [])"

definition raise_for_status :: "response \<Rightarrow> exn + unit" where
  "raise_for_status r =
     (if http_error_msg r \<noteq> [] then Inl (HTTPError (http_error_msg r) r) else Inr ())"

fun json_exn :: "json_failure \<Rightarrow> exn" where
  "json_exn (NotJSON m) = RequestsJSONDecodeError m"
| "json_exn (DigitLimit m) = ValueError m"
| "json_exn (TooDeep m) = RecursionError m"

definition response_json :: "response \<Rightarrow> exn + pyval" where
  "response_json r =
     (case json_body r of Inl f \<Rightarrow> Inl (json_exn f) | Inr v \<Rightarrow> Inr v)"

section \<open>The shape every requests-based tool shares\<close>

text \<open>
  The two \<open>except\<close> clauses that close each tool's \<open>try\<close>:
  \<^verbatim>\<open>
    except requests.exceptions.HTTPError as e:
        try:
            error_details = e.response.json()
            return {"error": str(e), "details": error_details}
        except json.JSONDecodeError:
            return {"error": str(e), "details": e.response.text}
    except requests.exceptions.RequestException as e:
        return {"error": f"Network/Request Error: {e}"}
  \<close>
  An exception matched by neither clause leaves the tool.
\<close>

definition handle_request_errors :: "exn + pyval \<Rightarrow> exn + pyval" where
  "handle_request_errors body =
     (case body of
        Inr v \<Rightarrow> Inr v
      | Inl e \<Rightarrow>
          (case e of
             HTTPError m r \<Rightarrow>
               (case response_json r of
                  Inr error_details \<Rightarrow>
                    Inr (PDict [(''error'', PStr (str_exn e)), (''details'', error_details)])
                | Inl e' \<Rightarrow>
                    if is_json_JSONDecodeError e'
                    then Inr (PDict [(''error'', PStr (str_exn e)), (''details'', PStr (resp_text r))])
                    else Inl e')
           | _ \<Rightarrow>
               if is_RequestException e
               then Inr (PDict [(''error'', PStr (''Network/Request Error: '' @ str_exn e))])
               else Inl e))"

text \<open>
  The \<open>try\<close> body of a tool that returns the decoded payload:
  \<open>response.raise_for_status(); return response.json()\<close>.
\<close>

definition checked_json :: "exn + response \<Rightarrow> exn + pyval" where
  "checked_json sent =
     (case sent of
        Inl e \<Rightarrow> Inl e
      | Inr response \<Rightarrow>
          (case raise_for_status response of
             Inl e \<Rightarrow> Inl e
           | Inr u \<Rightarrow> response_json response))"

section \<open>branch\_tools.py\<close>

definition gitlab_list_branches_request ::
  "int_or_str \<Rightarrow> string option \<Rightarrow> string option \<Rightarrow> config \<Rightarrow> request" where
  "gitlab_list_branches_request project_id regex search c =
     \<lparr>verb = GET,
      req_url = get_gitlab_api c @ ''/projects/'' @ str_id project_id @ ''/repository/branches'',
      headers = [(''PRIVATE-TOKEN'', get_gitlab_token c)],
      params = (if truthy_str regex then dict_set ''regex'' (PStr (the regex)) []
                else if truthy_str search then dict_set ''search'' (PStr (the search)) []
                else []),
      json = None\<rparr>"


definition gitlab_delete_branch_request :: "int_or_str \<Rightarrow> string \<Rightarrow> config \<Rightarrow> request" where
  "gitlab_delete_branch_request project_id branch_name c =
     \<lparr>verb = DELETE,
      req_url = get_gitlab_api c @ ''/projects/'' @ str_id project_id @ ''/repository/branches/'' @ branch_name,
      headers = [(''PRIVATE-TOKEN'', get_gitlab_token c)],
      params = [],
      json = None\<rparr>"

text \<open>
  \<open>gitlab_delete_branch\<close> returns a message string for 204 and a warning dictionary for any
  other status that \<open>raise_for_status\<close> lets through; it never reads \<open>response.json()\<close> on
  that path.
\<close>

definition gitlab_delete_branch ::
  "int_or_str \<Rightarrow> string \<Rightarrow> config \<Rightarrow> (request \<Rightarrow> reply) \<Rightarrow> exn + pyval" where
  "gitlab_delete_branch project_id branch_name c http =
     handle_request_errors
       (case requests_send http (gitlab_delete_branch_request project_id branch_name c) of
          Inl e \<Rightarrow> Inl e
        | Inr response \<Rightarrow>
            (case raise_for_status response of
               Inl e \<Rightarrow> Inl e
             | Inr u \<Rightarrow>
                 if status_code response = 204 then
                   Inr (PStr (''[GITLAB DELETE BRANCH] Branch '' @ [CHR 0x27] @ branch_name @ [CHR 0x27] @
                              '' deleted successfully (HTTP 204 No Content).''))
                 else
                   Inr (PDict [(''warning'', PStr (''Branch deletion returned unexpected status code '' @
                                                   str_nat (status_code response) @ ''.'')),
                               (''text'', PStr (resp_text response))])))"

section \<open>urllib.parse, as file\_tools.py uses it\<close>

text \<open>
  A path is a sequence of bytes (the UTF-8 encoding of the Python string). \<open>quote\<close> keeps
  the always-safe characters and those listed in \<open>safe\<close>, and writes every other byte as
  \<open>%XX\<close> with upper-case hexadecimal digits. \<open>quote_plus\<close>, called without \<open>safe\<close>, is
  \<open>quote\<close> when the string has no space; otherwise it quotes with the space added to the
  safe characters and then replaces each space by a plus sign.
\<close>

definition always_safe :: string where
  "always_safe = ''ABCDEFGHIJKLMNOPQRSTUVWXYZabcdefghijklmnopqrstuvwxyz0123456789_.-~''"

definition hex_digit :: "nat \<Rightarrow> char" where
  "hex_digit n = ''0123456789ABCDEF'' ! n"

definition percent_byte :: "char \<Rightarrow> string" where
  "percent_byte c =
     [CHR ''%'', hex_digit ((of_char c :: nat) div 16), hex_digit ((of_char c :: nat) mod 16)]"

definition quote :: "string \<Rightarrow> string \<Rightarrow> string" where
  "quote s safe =
     concat (map (\<lambda>c. if c \<in> set (always_safe @ safe) then [c] else percent_byte c) s)"

definition replace_char :: "char \<Rightarrow> char \<Rightarrow> string \<Rightarrow> string" where
  "replace_char a b s = map (\<lambda>c. if c = a then b else c) s"

definition quote_plus :: "string \<Rightarrow> string" where
  "quote_plus s =
     (if CHR '' '' \<notin> set s then quote s []
      else replace_char (CHR '' '') (CHR ''+'') (quote s '' ''))"

text \<open>The reserved characters of RFC 3986: the general and the sub-delimiters.\<close>

definition reserved_chars :: string where
  "reserved_chars = '':/?#[]@!$&()*+,;='' @ [CHR 0x27]"

definition reserved :: "char \<Rightarrow> bool" where
  "reserved c = (c \<in> set reserved_chars)"

section \<open>file\_tools.py\<close>

text \<open>
  \<open>create_gitlab_file\<close>: \<open>encoding\<close> defaults to \<open>'text'\<close> and \<open>execute_filemode\<close> to
  \<open>False\<close>; both always go into the body. The three \<open>None\<close>-defaulted arguments go in when
  truthy.
\<close>

definition put_if_truthy :: "string \<Rightarrow> string option \<Rightarrow> pydict \<Rightarrow> pydict" where
  "put_if_truthy k v d = (if truthy_str v then dict_set k (PStr (the v)) d else d)"

definition create_gitlab_file_data ::
  "string \<Rightarrow> string \<Rightarrow> string \<Rightarrow> string option \<Rightarrow> string option \<Rightarrow>
   string option arg \<Rightarrow> bool option arg \<Rightarrow> string option \<Rightarrow> pydict" where
  "create_gitlab_file_data branch content commit_message author_email author_name
       encoding execute_filemode start_branch =
     put_if_truthy ''start_branch'' start_branch
       (put_if_truthy ''author_name'' author_name
         (put_if_truthy ''author_email'' author_email
            [(''branch'', PStr branch),
             (''commit_message'', PStr commit_message),
             (''content'', PStr content),
             (''encoding'', opt_str (arg_default (Some ''text'') encoding)),
             (''execute_filemode'', opt_bool (arg_default (Some False) execute_filemode))]))"

definition create_gitlab_file_request ::
  "string \<Rightarrow> string \<Rightarrow> string \<Rightarrow> string \<Rightarrow> string \<Rightarrow> string option \<Rightarrow> string option \<Rightarrow>
   string option arg \<Rightarrow> bool option arg \<Rightarrow> string option \<Rightarrow> config \<Rightarrow> request" where
  "create_gitlab_file_request project_id file_path branch content commit_message author_email
       author_name encoding execute_filemode start_branch c =
     \<lparr>verb = POST,
      req_url = get_gitlab_api c @ ''/projects/'' @ project_id @ ''/repository/files/'' @ quote_plus file_path,
      headers = [(''PRIVATE-TOKEN'', get_gitlab_token c), (''Content-Type'', ''application/json'')],
      params = [],
      json = Some (create_gitlab_file_data branch content commit_message author_email author_name
                     encoding execute_filemode start_branch)\<rparr>"


definition delete_gitlab_file_request ::
  "string \<Rightarrow> string \<Rightarrow> string \<Rightarrow> string \<Rightarrow> string option \<Rightarrow> string option \<Rightarrow>
   string option \<Rightarrow> string option \<Rightarrow> config \<Rightarrow> request" where
  "delete_gitlab_file_request project_id file_path branch commit_message author_email author_name
       last_commit_id start_branch c =
     \<lparr>verb = DELETE,
      req_url = get_gitlab_api c @ ''/projects/'' @ project_id @ ''/repository/files/'' @ quote_plus file_path,
      headers = [(''PRIVATE-TOKEN'', get_gitlab_token c), (''Content-Type'', ''application/json'')],
      params = [],
      json = Some (put_if_truthy ''start_branch'' start_branch
                    (put_if_truthy ''last_commit_id'' last_commit_id
                      (put_if_truthy ''author_name'' author_name
                        (put_if_truthy ''author_email'' author_email
                           [(''branch'', PStr branch), (''commit_message'', PStr commit_message)]))))\<rparr>"

definition delete_gitlab_file ::
  "string \<Rightarrow> string \<Rightarrow> string \<Rightarrow> string \<Rightarrow> string option \<Rightarrow> string option \<Rightarrow>
   string option \<Rightarrow> string option \<Rightarrow> config \<Rightarrow> (request \<Rightarrow> reply) \<Rightarrow> exn + pyval" where
  "delete_gitlab_file project_id file_path branch commit_message author_email author_name
       last_commit_id start_branch c http =
     handle_request_errors
       (case requests_send http
               (delete_gitlab_file_request project_id file_path branch commit_message author_email
                  author_name last_commit_id start_branch c) of
          Inl e \<Rightarrow> Inl e
        | Inr response \<Rightarrow>
            (case raise_for_status response of
               Inl e \<Rightarrow> Inl e
             | Inr u \<Rightarrow>
                 if status_code response = 204 then
                   Inr (PDict [(''status'', PStr ''success''),
                               (''message'', PStr ''File deleted successfully (No Content returned)'')])
                 else response_json response))"

text \<open>\<open>get_raw_gitlab_file\<close> puts \<open>lfs\<close> (default \<open>False\<close>) into the query as it is, and returns \<open>response.text\<close>.\<close>

definition get_raw_gitlab_file_request ::
  "string \<Rightarrow> string \<Rightarrow> string \<Rightarrow> bool arg \<Rightarrow> config \<Rightarrow> request" where
  "get_raw_gitlab_file_request project_id file_path ref lfs c =
     \<lparr>verb = GET,
      req_url = get_gitlab_api c @ ''/projects/'' @ project_id @ ''/repository/files/'' @
                quote_plus file_path @ ''/raw'',
      headers = [(''PRIVATE-TOKEN'', get_gitlab_token c)],
      params = [(''ref'', PStr ref), (''lfs'', PBool (arg_default False lfs))],
      json = None\<rparr>"

definition get_raw_gitlab_file ::
  "string \<Rightarrow> string \<Rightarrow> string \<Rightarrow> bool arg \<Rightarrow> config \<Rightarrow> (request \<Rightarrow> reply) \<Rightarrow> exn + pyval" where
  "get_raw_gitlab_file project_id file_path ref lfs c http =
     handle_request_errors
       (case requests_send http (get_raw_gitlab_file_request project_id file_path ref lfs c) of
          Inl e \<Rightarrow> Inl e
        | Inr response \<Rightarrow>
            (case raise_for_status response of
               Inl e \<Rightarrow> Inl e
             | Inr u \<Rightarrow> Inr (PStr (resp_text response))))"

definition get_gitlab_file_metadata_and_content_request ::
  "string \<Rightarrow> string \<Rightarrow> string \<Rightarrow> config \<Rightarrow> request" where
  "get_gitlab_file_metadata_and_content_request project_id file_path ref c =
     \<lparr>verb = GET,
      req_url = get_gitlab_api c @ ''/projects/'' @ project_id @ ''/repository/files/'' @ quote_plus file_path,
      headers = [(''PRIVATE-TOKEN'', get_gitlab_token c)],
      params = [(''ref'', PStr ref)],
      json = None\<rparr>"

definition get_gitlab_file_metadata_and_content ::
  "string \<Rightarrow> string \<Rightarrow> string \<Rightarrow> config \<Rightarrow> (request \<Rightarrow> reply) \<Rightarrow> exn + pyval" where
  "get_gitlab_file_metadata_and_content project_id file_path ref c http =
     handle_request_errors
       (checked_json (requests_send http
          (get_gitlab_file_metadata_and_content_request project_id file_path ref c)))"

section \<open>commit\_tools.py\<close>

text \<open>
  \<open>list_gitlab_repository_commits\<close> walks \<open>api_params_map\<close>, reads each argument from
  \<open>locals()\<close>, skips \<open>None\<close>, and writes a boolean as \<open>str(value).lower()\<close>.
\<close>

definition api_params_map :: "(string \<times> string) list" where
  "api_params_map =
     [(''all_commits'', ''all''), (''author'', ''author''), (''first_parent'', ''first_parent''),
      (''order'', ''order''), (''path'', ''path''), (''ref_name'', ''ref_name''),
      (''since'', ''since''), (''trailers'', ''trailers''), (''until'', ''until''),
      (''with_stats'', ''with_stats''), (''per_page'', ''per_page''), (''page'', ''page'')]"

fun bool_to_lower_str :: "pyval \<Rightarrow> pyval" where
  "bool_to_lower_str (PBool b) = PStr (lower (str_bool b))"
| "bool_to_lower_str PNone = PNone"
| "bool_to_lower_str (PInt i) = PInt i"
| "bool_to_lower_str (PStr s) = PStr s"
| "bool_to_lower_str (PList xs) = PList xs"
| "bool_to_lower_str (PDict d) = PDict d"

fun collect_params :: "(string \<times> string) list \<Rightarrow> pydict \<Rightarrow> pydict \<Rightarrow> pydict" where
  "collect_params [] local_vars params' = params'"
| "collect_params ((py_name, api_name) # rest) local_vars params' =
     (let v = (case map_of local_vars py_name of None \<Rightarrow> PNone | Some x \<Rightarrow> x) in
      collect_params rest local_vars
        (if v \<noteq> PNone then dict_set api_name (bool_to_lower_str v) params' else params'))"

definition list_gitlab_repository_commits_request ::
  "int_or_str \<Rightarrow> bool option \<Rightarrow> string option \<Rightarrow> bool option \<Rightarrow> string option \<Rightarrow>
   string option \<Rightarrow> string option \<Rightarrow> string option \<Rightarrow> bool option \<Rightarrow> string option \<Rightarrow>
   bool option \<Rightarrow> int option \<Rightarrow> int option \<Rightarrow> config \<Rightarrow> request" where
  "list_gitlab_repository_commits_request project_id all_commits author first_parent order' path
       ref_name since trailers until with_stats per_page page c =
     \<lparr>verb = GET,
      req_url = get_gitlab_api c @ ''/projects/'' @ str_id project_id @ ''/repository/commits'',
      headers = (if get_gitlab_token c \<noteq> [] then [(''PRIVATE-TOKEN'', get_gitlab_token c)] else []),
      params = collect_params api_params_map
                 [(''all_commits'', opt_bool all_commits), (''author'', opt_str author),
                  (''first_parent'', opt_bool first_parent), (''order'', opt_str order'),
                  (''path'', opt_str path), (''ref_name'', opt_str ref_name),
                  (''since'', opt_str since), (''trailers'', opt_bool trailers),
                  (''until'', opt_str until), (''with_stats'', opt_bool with_stats),
                  (''per_page'', opt_int per_page), (''page'', opt_int page)]
                 [],
      json = None\<rparr>"


text \<open>
  \<open>create_gitlab_commit\<close> sends a JSON body. Its loop over \<open>optional_params\<close> skips
  \<open>None\<close> and writes a boolean as \<open>str(value).lower()\<close>, as the query loop above does.
\<close>

fun opt_id :: "int_or_str option \<Rightarrow> pyval" where
  "opt_id None = PNone"
| "opt_id (Some (IntId i)) = PInt i"
| "opt_id (Some (StrId s)) = PStr s"

fun add_optional_params :: "pydict \<Rightarrow> pydict \<Rightarrow> pydict" where
  "add_optional_params [] payload = payload"
| "add_optional_params ((py_name, v) # rest) payload =
     add_optional_params rest
       (if v \<noteq> PNone then dict_set py_name (bool_to_lower_str v) payload else payload)"

definition create_gitlab_commit_request ::
  "int_or_str \<Rightarrow> string \<Rightarrow> string \<Rightarrow> pyval list \<Rightarrow> string option \<Rightarrow> string option \<Rightarrow>
   bool option \<Rightarrow> string option \<Rightarrow> int_or_str option \<Rightarrow> string option \<Rightarrow> bool option \<Rightarrow>
   config \<Rightarrow> request" where
  "create_gitlab_commit_request project_id branch commit_message actions author_email author_name
       force start_branch start_project start_sha stats c =
     \<lparr>verb = POST,
      req_url = get_gitlab_api c @ ''/projects/'' @ str_id project_id @ ''/repository/commits'',
      headers = (if get_gitlab_token c \<noteq> []
                 then [(''Content-Type'', ''application/json''), (''PRIVATE-TOKEN'', get_gitlab_token c)]
                 else [(''Content-Type'', ''application/json'')]),
      params = [],
      json = Some (add_optional_params
                     [(''author_email'', opt_str author_email), (''author_name'', opt_str author_name),
                      (''force'', opt_bool force), (''start_branch'', opt_str start_branch),
                      (''start_project'', opt_id start_project), (''start_sha'', opt_str start_sha),
                      (''stats'', opt_bool stats)]
                     [(''branch'', PStr branch), (''commit_message'', PStr commit_message),
                      (''actions'', PList actions)])\<rparr>"

definition create_gitlab_commit ::
  "int_or_str \<Rightarrow> string \<Rightarrow> string \<Rightarrow> pyval list \<Rightarrow> string option \<Rightarrow> string option \<Rightarrow>
   bool option \<Rightarrow> string option \<Rightarrow> int_or_str option \<Rightarrow> string option \<Rightarrow> bool option \<Rightarrow>
   config \<Rightarrow> (request \<Rightarrow> reply) \<Rightarrow> exn + pyval" where
  "create_gitlab_commit project_id branch commit_message actions author_email author_name
       force start_branch start_project start_sha stats c http =
     handle_request_errors
       (checked_json (requests_send http
          (create_gitlab_commit_request project_id branch commit_message actions author_email
             author_name force start_branch start_project start_sha stats c)))"

section \<open>issue\_tools.py\<close>

text \<open>
  \<open>edit_issue\<close> adds each optional argument to the body when it \<open>is not None\<close>, in the
  order of the source, and returns an error dictionary without sending anything when the
  body stays empty.
\<close>

definition put_if_not_None :: "pydict \<Rightarrow> string \<times> pyval \<Rightarrow> pydict" where
  "put_if_not_None d kv = (if snd kv \<noteq> PNone then dict_set (fst kv) (snd kv) d else d)"

definition edit_issue_data ::
  "string option \<Rightarrow> int list option \<Rightarrow> bool option \<Rightarrow> string option \<Rightarrow> bool option \<Rightarrow>
   string option \<Rightarrow> int option \<Rightarrow> string option \<Rightarrow> string option \<Rightarrow> int option \<Rightarrow>
   string option \<Rightarrow> string option \<Rightarrow> string option \<Rightarrow> string option \<Rightarrow> int option \<Rightarrow> pydict" where
  "edit_issue_data add_labels assignee_ids confidential description discussion_locked due_date
       epic_id issue_type labels milestone_id remove_labels state_event title updated_at weight =
     foldl put_if_not_None []
       [(''add_labels'', opt_str add_labels),
        (''assignee_ids'', (case assignee_ids of None \<Rightarrow> PNone | Some ids \<Rightarrow> PList (map PInt ids))),
        (''confidential'', opt_bool confidential),
        (''description'', opt_str description),
        (''discussion_locked'', opt_bool discussion_locked),
        (''due_date'', opt_str due_date),
        (''epic_id'', opt_int epic_id),
        (''issue_type'', opt_str issue_type),
        (''labels'', opt_str labels),
        (''milestone_id'', opt_int milestone_id),
        (''remove_labels'', opt_str remove_labels),
        (''state_event'', opt_str state_event),
        (''title'', opt_str title),
        (''updated_at'', opt_str updated_at),
        (''weight'', opt_int weight)]"

definition edit_issue_request :: "int_or_str \<Rightarrow> int \<Rightarrow> pydict \<Rightarrow> config \<Rightarrow> request" where
  "edit_issue_request project_id issue_iid data c =
     \<lparr>verb = PUT,
      req_url = get_gitlab_api c @ ''/projects/'' @ str_id project_id @ ''/issues/'' @ str_int issue_iid,
      headers = [(''PRIVATE-TOKEN'', get_gitlab_token c)],
      params = [],
      json = Some data\<rparr>"

definition edit_issue ::
  "int_or_str \<Rightarrow> int \<Rightarrow>
   string option \<Rightarrow> int list option \<Rightarrow> bool option \<Rightarrow> string option \<Rightarrow> bool option \<Rightarrow>
   string option \<Rightarrow> int option \<Rightarrow> string option \<Rightarrow> string option \<Rightarrow> int option \<Rightarrow>
   string option \<Rightarrow> string option \<Rightarrow> string option \<Rightarrow> string option \<Rightarrow> int option \<Rightarrow>
   config \<Rightarrow> (request \<Rightarrow> reply) \<Rightarrow> exn + pyval" where
  "edit_issue project_id issue_iid add_labels assignee_ids confidential description
       discussion_locked due_date epic_id issue_type labels milestone_id remove_labels state_event
       title updated_at weight c http =
     (let data = edit_issue_data add_labels assignee_ids confidential description discussion_locked
                   due_date epic_id issue_type labels milestone_id remove_labels state_event title
                   updated_at weight in
      if data = [] then Inr (PDict [(''error'', PStr ''At least one parameter to update is required.'')])
      else handle_request_errors
             (checked_json (requests_send http (edit_issue_request project_id issue_iid data c))))"

text \<open>\<open>delete_issue\<close> answers every response that \<open>raise_for_status\<close> lets through with the same dictionary.\<close>

definition delete_issue_request :: "int_or_str \<Rightarrow> int \<Rightarrow> config \<Rightarrow> request" where
  "delete_issue_request project_id issue_iid c =
     \<lparr>verb = DELETE,
      req_url = get_gitlab_api c @ ''/projects/'' @ str_id project_id @ ''/issues/'' @ str_int issue_iid,
      headers = [(''PRIVATE-TOKEN'', get_gitlab_token c)],
      params = [],
      json = None\<rparr>"

definition delete_issue ::
  "int_or_str \<Rightarrow> int \<Rightarrow> config \<Rightarrow> (request \<Rightarrow> reply) \<Rightarrow> exn + pyval" where
  "delete_issue project_id issue_iid c http =
     handle_request_errors
       (case requests_send http (delete_issue_request project_id issue_iid c) of
          Inl e \<Rightarrow> Inl e
        | Inr response \<Rightarrow>
            (case raise_for_status response of
               Inl e \<Rightarrow> Inl e
             | Inr u \<Rightarrow>
                 Inr (PDict [(''status'', PStr ''success''),
                             (''message'', PStr (''Issue '' @ str_int issue_iid @ '' deleted successfully.''))])))"

section \<open>merge\_request\_tools.py\<close>

text \<open>\<open>delete_gitlab_merge_request\<close> returns \<open>None\<close> for 204, as its docstring says.\<close>

definition delete_gitlab_merge_request_request :: "int_or_str \<Rightarrow> int \<Rightarrow> config \<Rightarrow> request" where
  "delete_gitlab_merge_request_request project_id merge_request_iid c =
     \<lparr>verb = DELETE,
      req_url = get_gitlab_api c @ ''/projects/'' @ str_id project_id @ ''/merge_requests/'' @
                str_int merge_request_iid,
      headers = (if get_gitlab_token c \<noteq> [] then [(''PRIVATE-TOKEN'', get_gitlab_token c)] else []),
      params = [],
      json = None\<rparr>"

definition delete_gitlab_merge_request ::
  "int_or_str \<Rightarrow> int \<Rightarrow> config \<Rightarrow> (request \<Rightarrow> reply) \<Rightarrow> exn + pyval" where
  "delete_gitlab_merge_request project_id merge_request_iid c http =
     handle_request_errors
       (case requests_send http (delete_gitlab_merge_request_request project_id merge_request_iid c) of
          Inl e \<Rightarrow> Inl e
        | Inr response \<Rightarrow>
            (case raise_for_status response of
               Inl e \<Rightarrow> Inl e
             | Inr u \<Rightarrow>
                 if status_code response = 204 then Inr PNone
                 else Inr (PDict [(''status'', PStr ''Success''),
                                  (''message'', PStr (''Merge request deleted, received unexpected status code '' @
                                                      str_nat (status_code response)))])))"

section \<open>repo\_tools.py\<close>



section \<open>Properties of the configuration store\<close>

text \<open>
  C6. \<open>set_gitlab_config\<close> writes exactly the fields whose argument is non-empty and
  leaves the other field as it was; repeating the same call changes nothing; and a later
  call that passes no token keeps the token the earlier call stored.
\<close>

theorem set_gitlab_config_partial_update:
  "set_gitlab_config a b (set_gitlab_config a b c) = set_gitlab_config a b c
   \<and> token (set_gitlab_config a None (set_gitlab_config a b c)) = token (set_gitlab_config a b c)
   \<and> (truthy_str b \<longrightarrow> token (set_gitlab_config a None (set_gitlab_config a b c)) = the b)
   \<and> api_url (set_gitlab_config a b c) = (if truthy_str a then the a else api_url c)
   \<and> token (set_gitlab_config a b c) = (if truthy_str b then the b else token c)"
  by (simp add: set_gitlab_config_def Let_def)

theorem set_gitlab_config_partial_update_witness:
  "set_gitlab_config (Some ''https://git.example/api/v4'') (Some ''tok'')
      (set_gitlab_config (Some ''https://git.example/api/v4'') (Some ''tok'')
         \<lparr>api_url = ''old'', token = ''''\<rparr>)
     = \<lparr>api_url = ''https://git.example/api/v4'', token = ''tok''\<rparr>
   \<and> token (set_gitlab_config (Some ''https://git.example/api/v4'') None
         (set_gitlab_config (Some ''https://git.example/api/v4'') (Some ''tok'')
            \<lparr>api_url = ''old'', token = ''''\<rparr>)) = ''tok''"
  using set_gitlab_config_partial_update
    [of "Some ''https://git.example/api/v4''" "Some ''tok''" "\<lparr>api_url = ''old'', token = ''''\<rparr>"]
  by (simp add: set_gitlab_config_def Let_def)

text \<open>
  C7. A call of \<open>configure_gitlab\<close> with a non-empty token and no \<open>api_url\<close> argument
  stores the default URL, so a custom base URL stored before is lost.
\<close>

theorem configure_gitlab_token_only_resets_api_url:
  assumes "t \<noteq> []" and "api_url c \<noteq> []" and "api_url c \<noteq> default_api_url"
  shows "api_url (snd (configure_gitlab Omitted (Some t) c)) = ''https://gitlab.com/api/v4''
         \<and> api_url (snd (configure_gitlab Omitted (Some t) c)) \<noteq> api_url c
         \<and> token (snd (configure_gitlab Omitted (Some t) c)) = t"
  using assms
  by (simp add: configure_gitlab_def set_gitlab_config_def default_api_url_def Let_def)

theorem configure_gitlab_token_only_resets_api_url_witness:
  "api_url (snd (configure_gitlab Omitted (Some ''glpat-1'')
      \<lparr>api_url = ''https://git.example/api/v4'', token = ''glpat-0''\<rparr>)) = ''https://gitlab.com/api/v4''"
  using configure_gitlab_token_only_resets_api_url
    [of "''glpat-1''" "\<lparr>api_url = ''https://git.example/api/v4'', token = ''glpat-0''\<rparr>"]
  by (simp add: default_api_url_def)

text \<open>
  C10. \<open>check_gitlab_config\<close> depends on the token only through whether it is empty: two
  configurations with the same base URL, whose tokens are both empty or both non-empty,
  get the same answer.
\<close>

theorem check_gitlab_config_hides_token:
  assumes "api_url c1 = api_url c2" and "(token c1 = []) = (token c2 = [])"
  shows "check_gitlab_config c1 = check_gitlab_config c2"
  using assms by (simp add: check_gitlab_config_def is_configured_def)

theorem check_gitlab_config_hides_token_witness:
  "check_gitlab_config \<lparr>api_url = ''https://gitlab.com/api/v4'', token = ''secret-A''\<rparr>
   = check_gitlab_config \<lparr>api_url = ''https://gitlab.com/api/v4'', token = ''other-B''\<rparr>"
  using check_gitlab_config_hides_token
    [of "\<lparr>api_url = ''https://gitlab.com/api/v4'', token = ''secret-A''\<rparr>"
        "\<lparr>api_url = ''https://gitlab.com/api/v4'', token = ''other-B''\<rparr>"]
  by simp

section \<open>What the shared error handling returns\<close>

text \<open>
  The outcomes of a tool that sends one request, checks the status and returns
  \<open>response.json()\<close>: no response, a 4xx/5xx response, any other response; in each, the
  body decodes or is not JSON.
\<close>

lemma http_error_msg_empty_iff:
  "(http_error_msg r = []) = (\<not> (400 \<le> status_code r \<and> status_code r < 600))"
  by (auto simp: http_error_msg_def)






text \<open>
  The clauses catch \<open>RequestException\<close> and, around the error body, \<open>JSONDecodeError\<close>
  only; any other exception leaves the tool.
\<close>

lemma tool_uncaught_decoder_failure:
  "http rq = Response r \<Longrightarrow> json_body r = Inl f \<Longrightarrow> \<not> is_RequestException (json_exn f) \<Longrightarrow>
   handle_request_errors (checked_json (requests_send http rq)) = Inl (json_exn f)"
  by (cases f)
     (simp_all add: handle_request_errors_def checked_json_def requests_send_def
        raise_for_status_def response_json_def)

lemma tool_uncaught_encode_failure:
  "http rq = EncodeFailure m \<Longrightarrow>
   handle_request_errors (checked_json (requests_send http rq)) = Inl (UnicodeEncodeError m)"
  by (simp add: handle_request_errors_def checked_json_def requests_send_def)



section \<open>Results of the tools\<close>







section \<open>Requests built by the tools\<close>

text \<open>
  C3, as the code has it. \<open>get_headers\<close> builds \<open>Accept: application/json\<close> plus
  \<open>PRIVATE-TOKEN\<close> for a non-empty token, but the tools build their own header
  dictionaries: \<open>gitlab_list_branches\<close> sends \<open>PRIVATE-TOKEN\<close> with the stored token
  whatever it is, and \<open>list_gitlab_repository_commits\<close> sends \<open>PRIVATE-TOKEN\<close> for a
  non-empty token and no header otherwise. Neither sends \<open>Accept\<close>.
\<close>

theorem header_maps:
  "get_headers c
     = (if token c \<noteq> []
        then [(''Accept'', ''application/json''), (''PRIVATE-TOKEN'', token c)]
        else [(''Accept'', ''application/json'')])
   \<and> headers (gitlab_list_branches_request project_id regex search c) = [(''PRIVATE-TOKEN'', token c)]
   \<and> headers (list_gitlab_repository_commits_request pid all_commits author first_parent order' path
                 ref_name since trailers until with_stats per_page page c)
       = (if token c \<noteq> [] then [(''PRIVATE-TOKEN'', token c)] else [])"
  by (simp add: get_headers_def gitlab_list_branches_request_def
      list_gitlab_repository_commits_request_def get_gitlab_token_def)

theorem header_maps_witness:
  "get_headers \<lparr>api_url = ''https://gitlab.com/api/v4'', token = ''glpat-1''\<rparr>
     = [(''Accept'', ''application/json''), (''PRIVATE-TOKEN'', ''glpat-1'')]
   \<and> get_headers \<lparr>api_url = ''https://gitlab.com/api/v4'', token = []\<rparr>
     = [(''Accept'', ''application/json'')]"
  using header_maps [of "\<lparr>api_url = ''https://gitlab.com/api/v4'', token = ''glpat-1''\<rparr>"]
        header_maps [of "\<lparr>api_url = ''https://gitlab.com/api/v4'', token = []\<rparr>"]
  by simp

text \<open>
  With an empty token \<open>gitlab_list_branches\<close> still sends the \<open>PRIVATE-TOKEN\<close> header,
  and it sends no \<open>Accept\<close> header.
\<close>

theorem tool_headers_counterexample:
  "headers (gitlab_list_branches_request (IntId 42) None None
              \<lparr>api_url = ''https://gitlab.com/api/v4'', token = []\<rparr>) = [(''PRIVATE-TOKEN'', [])]
   \<and> map_of (headers (gitlab_list_branches_request (IntId 42) None None
              \<lparr>api_url = ''https://gitlab.com/api/v4'', token = []\<rparr>)) ''Accept'' = None
   \<and> map_of (headers (gitlab_list_branches_request (IntId 42) None None
              \<lparr>api_url = ''https://gitlab.com/api/v4'', token = []\<rparr>)) ''PRIVATE-TOKEN'' = Some []"
  by (simp add: gitlab_list_branches_request_def get_gitlab_token_def)

section \<open>What quote\_plus writes\<close>

text \<open>
  \<open>quote_plus\<close> works character by character: a space becomes a plus sign, an
  always-safe character stays, every other byte becomes its \<open>%XX\<close> triple.
\<close>

lemma hex_digit_in: "n < 16 \<Longrightarrow> hex_digit n \<in> set ''0123456789ABCDEF''"
  unfolding hex_digit_def by (rule nth_mem) simp

lemma percent_byte_chars:
  "set (percent_byte c) \<subseteq> insert CHR ''%'' (set ''0123456789ABCDEF'')"
proof -
  have "(of_char c :: nat) < 256" by (rule nat_of_char_less_256)
  then have hi: "(of_char c :: nat) div 16 < 16" by arith
  have lo: "(of_char c :: nat) mod 16 < 16" by simp
  from hex_digit_in [OF hi] hex_digit_in [OF lo] show ?thesis
    unfolding percent_byte_def by simp
qed

lemma percent_byte_no_space: "CHR '' '' \<notin> set (percent_byte c)"
  using percent_byte_chars [of c] by auto

lemma percent_byte_no_plus: "CHR ''+'' \<notin> set (percent_byte c)"
  using percent_byte_chars [of c] by auto

lemma percent_byte_not_reserved: "d \<in> set (percent_byte c) \<Longrightarrow> \<not> reserved d"
  using percent_byte_chars [of c] by (auto simp: reserved_def reserved_chars_def)

lemma always_safe_not_reserved: "d \<in> set always_safe \<Longrightarrow> \<not> reserved d"
  by (auto simp: always_safe_def reserved_def reserved_chars_def)

lemma space_not_always_safe: "CHR '' '' \<notin> set always_safe"
  by (simp add: always_safe_def)

lemma plus_not_always_safe: "CHR ''+'' \<notin> set always_safe"
  by (simp add: always_safe_def)

lemma quote_no_space:
  "CHR '' '' \<notin> set s \<Longrightarrow>
   quote s [] = concat (map (\<lambda>c. if c = CHR '' '' then ''+''
                                    else if c \<in> set always_safe then [c] else percent_byte c) s)"
  by (induction s) (auto simp: quote_def)

lemma replace_percent_byte:
  "replace_char (CHR '' '') (CHR ''+'') (percent_byte c) = percent_byte c"
  using percent_byte_no_space [of c] unfolding replace_char_def
  by (intro map_idI) auto

lemma quote_with_space:
  "replace_char (CHR '' '') (CHR ''+'') (quote s '' '') =
     concat (map (\<lambda>c. if c = CHR '' '' then ''+''
                        else if c \<in> set always_safe then [c] else percent_byte c) s)"
proof (induction s)
  case Nil
  show ?case by (simp add: quote_def replace_char_def)
next
  case (Cons a s)
  have step: "quote (a # s) '' '' =
      (if a \<in> set (always_safe @ '' '') then [a] else percent_byte a) @ quote s '' ''"
    by (simp add: quote_def)
  have app: "\<And>u v. replace_char (CHR '' '') (CHR ''+'') (u @ v) =
      replace_char (CHR '' '') (CHR ''+'') u @ replace_char (CHR '' '') (CHR ''+'') v"
    by (simp add: replace_char_def)
  show ?case
    using Cons.IH space_not_always_safe
    by (auto simp: step app replace_percent_byte) (simp_all add: replace_char_def)
qed

lemma quote_plus_concat:
  "quote_plus s = concat (map (\<lambda>c. if c = CHR '' '' then ''+''
                        else if c \<in> set always_safe then [c] else percent_byte c) s)"
  by (simp add: quote_plus_def quote_no_space quote_with_space)

lemma quote_plus_append: "quote_plus (xs @ ys) = quote_plus xs @ quote_plus ys"
  by (simp add: quote_plus_concat)

lemma quote_plus_reserved_char: "reserved c \<Longrightarrow> quote_plus [c] = percent_byte c"
  using always_safe_not_reserved [of c]
  by (auto simp: quote_plus_concat reserved_def reserved_chars_def)

lemma quote_plus_chars:
  assumes "d \<in> set (quote_plus s)"
  shows "d = CHR ''+'' \<and> CHR '' '' \<in> set s \<or> d \<noteq> CHR ''+'' \<and> \<not> reserved d"
proof -
  from assms obtain c where c: "c \<in> set s"
    and d: "d \<in> set (if c = CHR '' '' then ''+''
                        else if c \<in> set always_safe then [c] else percent_byte c)"
    unfolding quote_plus_concat set_concat set_map by blast
  show ?thesis
  proof (cases "c = CHR '' ''")
    case True
    with c d show ?thesis by simp
  next
    case False
    show ?thesis
    proof (cases "c \<in> set always_safe")
      case True
      with False d have "d = c" by simp
      with True plus_not_always_safe always_safe_not_reserved show ?thesis by auto
    next
      case safe: False
      with False d have "d \<in> set (percent_byte c)" by simp
      with percent_byte_no_plus percent_byte_not_reserved show ?thesis by auto
    qed
  qed
qed

lemma quote_plus_space: "CHR '' '' \<in> set s \<Longrightarrow> CHR ''+'' \<in> set (quote_plus s)"
  by (auto simp: quote_plus_concat)

lemma quote_plus_reserved_percent_encoded:
  "(reserved c \<longrightarrow>
      quote_plus (xs @ c # ys) = quote_plus xs @ percent_byte c @ quote_plus ys
      \<and> (\<forall>d \<in> set (percent_byte c). \<not> reserved d))
   \<and> (\<forall>d \<in> set (quote_plus s). reserved d \<longrightarrow> d = CHR ''+'')
   \<and> (CHR ''+'' \<in> set (quote_plus s) \<longleftrightarrow> CHR '' '' \<in> set s)
   \<and> CHR ''/'' \<notin> set (quote_plus s)"
proof -
  have enc: "reserved c \<Longrightarrow>
      quote_plus (xs @ c # ys) = quote_plus xs @ percent_byte c @ quote_plus ys"
  proof -
    assume r: "reserved c"
    have "quote_plus (xs @ c # ys) = quote_plus xs @ quote_plus [c] @ quote_plus ys"
      using quote_plus_append [of xs "[c] @ ys"] quote_plus_append [of "[c]" ys] by simp
    with r show ?thesis by (simp add: quote_plus_reserved_char)
  qed
  have only_plus: "\<forall>d \<in> set (quote_plus s). reserved d \<longrightarrow> d = CHR ''+''"
    using quote_plus_chars [of _ s] by blast
  have plus_iff: "CHR ''+'' \<in> set (quote_plus s) \<longleftrightarrow> CHR '' '' \<in> set s"
    using quote_plus_chars [of "CHR ''+''" s] quote_plus_space [of s] by blast
  have slash_reserved: "reserved CHR ''/''"
    by (simp add: reserved_def reserved_chars_def)
  have no_slash: "CHR ''/'' \<notin> set (quote_plus s)"
    using only_plus slash_reserved by fastforce
  show ?thesis
    using enc only_plus plus_iff no_slash percent_byte_not_reserved [of _ c] by simp
qed

text \<open>
  C9. A file path put into a URL is to be percent-encoded as one opaque path segment, with
  every reserved character of the path in percent-encoded form only. The file tools call
  \<open>quote_plus\<close>, which encodes the slash and the other reserved characters but writes a
  space as a plus sign instead of \<open>%20\<close>. For the path \<open>C++ notes.txt\<close> the segment sent
  is \<open>C%2B%2B+notes.txt\<close>: the space is not percent-encoded, and the segment holds a
  literal plus sign, which in a path stands for itself and is a reserved character of the
  path.
\<close>

theorem quote_plus_writes_space_as_plus:
  "quote_plus ''C++ notes.txt'' = ''C%2B%2B+notes.txt''
   \<and> reserved CHR ''+''
   \<and> CHR ''+'' \<in> set ''C++ notes.txt''
   \<and> CHR ''+'' \<in> set (quote_plus ''C++ notes.txt'')
   \<and> req_url (create_gitlab_file_request ''42'' ''C++ notes.txt'' ''main'' ''text'' ''Add notes''
         None None Omitted Omitted None \<lparr>api_url = ''https://gitlab.com/api/v4'', token = ''t''\<rparr>)
       = ''https://gitlab.com/api/v4/projects/42/repository/files/C%2B%2B+notes.txt''
   \<and> ''C%2B%2B+notes.txt'' \<noteq> ''C%2B%2B%20notes.txt''"
  by (simp add: reserved_def reserved_chars_def quote_plus_def quote_def replace_char_def
      always_safe_def percent_byte_def hex_digit_def create_gitlab_file_request_def
      get_gitlab_api_def)

section \<open>Deleting with status 204\<close>

lemma raise_for_status_204: "status_code r = 204 \<Longrightarrow> raise_for_status r = Inr ()"
  by (simp add: raise_for_status_def http_error_msg_empty_iff)

text \<open>
  C8, as the code has it. When the response to a delete carries status 204, the tool
  builds its result itself and does not read \<open>response.json()\<close>, so the result is the same
  whatever the body is and whether or not it decodes: a message string for
  \<open>gitlab_delete_branch\<close>, a status dictionary for \<open>delete_gitlab_file\<close> and
  \<open>delete_issue\<close>, and \<open>None\<close> for \<open>delete_gitlab_merge_request\<close>.
\<close>

theorem delete_204_result_built_locally:
  assumes "status_code r = 204"
  shows "(http (gitlab_delete_branch_request project_id branch_name cfg) = Response r \<longrightarrow>
            gitlab_delete_branch project_id branch_name cfg http
              = Inr (PStr (''[GITLAB DELETE BRANCH] Branch '' @ [CHR 0x27] @ branch_name @ [CHR 0x27] @
                           '' deleted successfully (HTTP 204 No Content).'')))
       \<and> (http (delete_gitlab_file_request pid file_path branch commit_message author_email
                   author_name last_commit_id start_branch cfg) = Response r \<longrightarrow>
            delete_gitlab_file pid file_path branch commit_message author_email
                   author_name last_commit_id start_branch cfg http
              = Inr (PDict [(''status'', PStr ''success''),
                            (''message'', PStr ''File deleted successfully (No Content returned)'')]))
       \<and> (http (delete_issue_request project_id issue_iid cfg) = Response r \<longrightarrow>
            delete_issue project_id issue_iid cfg http
              = Inr (PDict [(''status'', PStr ''success''),
                            (''message'', PStr (''Issue '' @ str_int issue_iid @ '' deleted successfully.''))]))
       \<and> (http (delete_gitlab_merge_request_request project_id merge_request_iid cfg) = Response r \<longrightarrow>
            delete_gitlab_merge_request project_id merge_request_iid cfg http = Inr PNone)"
  using assms
  by (simp add: gitlab_delete_branch_def delete_gitlab_file_def delete_issue_def
      delete_gitlab_merge_request_def requests_send_def raise_for_status_204
      handle_request_errors_def)

theorem delete_204_result_built_locally_witness:
  "delete_gitlab_file ''74952730'' ''src/old.py'' ''main'' ''Remove'' None None None None
      \<lparr>api_url = ''https://gitlab.com/api/v4'', token = ''t''\<rparr>
      (\<lambda>rq. Response \<lparr>status_code = 204, reason = ''No Content'', url = req_url rq, resp_text = [],
                        json_body = Inl (NotJSON ''Expecting value: line 1 column 1 (char 0)'')\<rparr>)
     = Inr (PDict [(''status'', PStr ''success''),
                   (''message'', PStr ''File deleted successfully (No Content returned)'')])"
  using delete_204_result_built_locally
    [of "\<lparr>status_code = 204, reason = ''No Content'',
           url = ''https://gitlab.com/api/v4/projects/74952730/repository/files/src%2Fold.py'',
           resp_text = [], json_body = Inl (NotJSON ''Expecting value: line 1 column 1 (char 0)'')\<rparr>"
        "\<lambda>rq. Response \<lparr>status_code = 204, reason = ''No Content'', url = req_url rq, resp_text = [],
                        json_body = Inl (NotJSON ''Expecting value: line 1 column 1 (char 0)'')\<rparr>"
        _ _ "\<lparr>api_url = ''https://gitlab.com/api/v4'', token = ''t''\<rparr>"
        "''74952730''" "''src/old.py''" "''main''" "''Remove''" None None None None]
  by (simp add: delete_gitlab_file_request_def get_gitlab_api_def get_gitlab_token_def
      put_if_truthy_def quote_plus_def quote_def always_safe_def percent_byte_def hex_digit_def)

text \<open>
  \<open>delete_gitlab_merge_request\<close> answers 204 with \<open>None\<close>, which is neither a message
  nor a status object.
\<close>

theorem delete_merge_request_returns_None_counterexample:
  "delete_gitlab_merge_request (IntId 42) 7 \<lparr>api_url = ''https://gitlab.com/api/v4'', token = ''t''\<rparr>
      (\<lambda>rq. Response \<lparr>status_code = 204, reason = ''No Content'', url = req_url rq, resp_text = [],
                        json_body = Inl (NotJSON ''Expecting value: line 1 column 1 (char 0)'')\<rparr>)
     = Inr PNone"
  by (simp add: delete_gitlab_merge_request_def requests_send_def raise_for_status_204
      handle_request_errors_def)

section \<open>Looking keys up in the dictionaries the tools build\<close>

text \<open>
  The loops of \<open>list_gitlab_repository_commits\<close> and \<open>create_gitlab_commit\<close> are folds of
  one conditional assignment, so a key is looked up by walking the list of assignments.
\<close>

lemma map_of_dict_set: "map_of (dict_set k v d) k' = (if k' = k then Some v else map_of d k')"
  by (simp add: dict_set_def update_conv')

lemma map_of_put_if_not_None:
  "map_of (put_if_not_None d kv) k =
     (if fst kv = k \<and> snd kv \<noteq> PNone then Some (snd kv) else map_of d k)"
  by (auto simp: put_if_not_None_def map_of_dict_set)

lemma map_of_put_if_truthy:
  "map_of (put_if_truthy k' v d) k =
     (if k' = k \<and> truthy_str v then Some (PStr (the v)) else map_of d k)"
  by (auto simp: put_if_truthy_def map_of_dict_set)

lemma bool_to_lower_str_None [simp]: "(bool_to_lower_str v = PNone) = (v = PNone)"
  by (cases v) simp_all

lemma collect_params_foldl:
  "collect_params m local_vars ps =
     foldl (\<lambda>d names. put_if_not_None d
              (snd names, bool_to_lower_str
                 (case map_of local_vars (fst names) of None \<Rightarrow> PNone | Some x \<Rightarrow> x))) ps m"
  by (induction m local_vars ps rule: collect_params.induct)
     (simp_all add: put_if_not_None_def Let_def)

lemma add_optional_params_foldl:
  "add_optional_params kvs payload =
     foldl (\<lambda>d kv. put_if_not_None d (fst kv, bool_to_lower_str (snd kv))) payload kvs"
  by (induction kvs payload rule: add_optional_params.induct)
     (simp_all add: put_if_not_None_def)

lemma opt_str_None_iff [simp]: "(opt_str x = PNone) = (x = None)"
  by (cases x) simp_all

lemma opt_bool_None_iff [simp]: "(opt_bool x = PNone) = (x = None)"
  by (cases x) simp_all

lemma opt_int_None_iff [simp]: "(opt_int x = PNone) = (x = None)"
  by (cases x) simp_all

lemma lower_str_bool: "lower (str_bool b) = (if b then ''true'' else ''false'')"
  by (simp add: lower_def str_bool_def lower_char_def)
















lemma list_commits_all_commits:
  "map_of (params (list_gitlab_repository_commits_request project_id all_commits author first_parent
       order' path ref_name since trailers until with_stats per_page page cfg)) ''all''
     = map_option (\<lambda>b. PStr (if b then ''true'' else ''false'')) all_commits"
  by (cases all_commits)
     (simp_all add: list_gitlab_repository_commits_request_def collect_params_foldl
        api_params_map_def map_of_put_if_not_None lower_str_bool)

lemma list_commits_first_parent:
  "map_of (params (list_gitlab_repository_commits_request project_id all_commits author first_parent
       order' path ref_name since trailers until with_stats per_page page cfg)) ''first_parent''
     = map_option (\<lambda>b. PStr (if b then ''true'' else ''false'')) first_parent"
  by (cases first_parent)
     (simp_all add: list_gitlab_repository_commits_request_def collect_params_foldl
        api_params_map_def map_of_put_if_not_None lower_str_bool)

lemma list_commits_trailers:
  "map_of (params (list_gitlab_repository_commits_request project_id all_commits author first_parent
       order' path ref_name since trailers until with_stats per_page page cfg)) ''trailers''
     = map_option (\<lambda>b. PStr (if b then ''true'' else ''false'')) trailers"
  by (cases trailers)
     (simp_all add: list_gitlab_repository_commits_request_def collect_params_foldl
        api_params_map_def map_of_put_if_not_None lower_str_bool)

lemma list_commits_with_stats:
  "map_of (params (list_gitlab_repository_commits_request project_id all_commits author first_parent
       order' path ref_name since trailers until with_stats per_page page cfg)) ''with_stats''
     = map_option (\<lambda>b. PStr (if b then ''true'' else ''false'')) with_stats"
  by (cases with_stats)
     (simp_all add: list_gitlab_repository_commits_request_def collect_params_foldl
        api_params_map_def map_of_put_if_not_None lower_str_bool)

lemma create_commit_force:
  "map_of (the (json (create_gitlab_commit_request project_id branch commit_message actions author_email
       author_name force start_branch start_project start_sha stats cfg))) ''force''
     = map_option (\<lambda>b. PStr (if b then ''true'' else ''false'')) force"
  by (cases force)
     (simp_all add: create_gitlab_commit_request_def add_optional_params_foldl
        map_of_put_if_not_None lower_str_bool)

lemma create_commit_stats:
  "map_of (the (json (create_gitlab_commit_request project_id branch commit_message actions author_email
       author_name force start_branch start_project start_sha stats cfg))) ''stats''
     = map_option (\<lambda>b. PStr (if b then ''true'' else ''false'')) stats"
  by (cases stats)
     (simp_all add: create_gitlab_commit_request_def add_optional_params_foldl
        map_of_put_if_not_None lower_str_bool)


lemma create_file_execute_filemode:
  "map_of (create_gitlab_file_data branch content commit_message author_email author_name
       encoding execute_filemode start_branch) ''execute_filemode''
     = Some (opt_bool (arg_default (Some False) execute_filemode))"
  by (simp add: create_gitlab_file_data_def map_of_put_if_truthy)









text \<open>
  C5, as the code has it. How a boolean is written depends on the tool, not only on where
  it goes. \<open>list_gitlab_repository_commits\<close> writes each given boolean into the query as
  \<open>"true"\<close> or \<open>"false"\<close>; \<open>create_gitlab_file\<close> writes \<open>execute_filemode\<close> into the JSON
  body as a boolean; \<open>create_gitlab_commit\<close> writes \<open>force\<close> and \<open>stats\<close> into the JSON
  body as \<open>"true"\<close> or \<open>"false"\<close>.
\<close>

theorem boolean_encoding_by_tool:
  "map_of (params (list_gitlab_repository_commits_request project_id all_commits author first_parent
       order' path ref_name since trailers until with_stats per_page page cfg)) ''all''
     = map_option (\<lambda>b. PStr (if b then ''true'' else ''false'')) all_commits
   \<and> map_of (params (list_gitlab_repository_commits_request project_id all_commits author first_parent
       order' path ref_name since trailers until with_stats per_page page cfg)) ''first_parent''
     = map_option (\<lambda>b. PStr (if b then ''true'' else ''false'')) first_parent
   \<and> map_of (params (list_gitlab_repository_commits_request project_id all_commits author first_parent
       order' path ref_name since trailers until with_stats per_page page cfg)) ''trailers''
     = map_option (\<lambda>b. PStr (if b then ''true'' else ''false'')) trailers
   \<and> map_of (params (list_gitlab_repository_commits_request project_id all_commits author first_parent
       order' path ref_name since trailers until with_stats per_page page cfg)) ''with_stats''
     = map_option (\<lambda>b. PStr (if b then ''true'' else ''false'')) with_stats
   \<and> map_of (create_gitlab_file_data branch content commit_message author_email author_name
       encoding (Passed (Some b)) start_branch) ''execute_filemode''
     = Some (PBool b)
   \<and> map_of (the (json (create_gitlab_commit_request project_id branch commit_message actions author_email
       author_name force start_branch start_project start_sha stats cfg))) ''force''
     = map_option (\<lambda>b. PStr (if b then ''true'' else ''false'')) force
   \<and> map_of (the (json (create_gitlab_commit_request project_id branch commit_message actions author_email
       author_name force start_branch start_project start_sha stats cfg))) ''stats''
     = map_option (\<lambda>b. PStr (if b then ''true'' else ''false'')) stats"
  by (simp only: list_commits_all_commits list_commits_first_parent list_commits_trailers
      list_commits_with_stats create_file_execute_filemode create_commit_force create_commit_stats
      arg_default.simps opt_bool.simps simp_thms)

theorem boolean_encoding_by_tool_witness:
  "map_of (params (list_gitlab_repository_commits_request (IntId 42) (Some True) None (Some False)
       None None None None None None None None None
       \<lparr>api_url = ''https://gitlab.com/api/v4'', token = ''t''\<rparr>)) ''all'' = Some (PStr ''true'')
   \<and> map_of (params (list_gitlab_repository_commits_request (IntId 42) (Some True) None (Some False)
       None None None None None None None None None
       \<lparr>api_url = ''https://gitlab.com/api/v4'', token = ''t''\<rparr>)) ''first_parent'' = Some (PStr ''false'')
   \<and> map_of (create_gitlab_file_data ''main'' ''x'' ''m'' None None Omitted (Passed (Some True)) None)
       ''execute_filemode'' = Some (PBool True)"
  using boolean_encoding_by_tool
    [where project_id = "IntId 42" and all_commits = "Some True" and first_parent = "Some False"
       and cfg = "\<lparr>api_url = ''https://gitlab.com/api/v4'', token = ''t''\<rparr>"
       and author = None and order' = None and path = None and ref_name = None and since = None
       and trailers = None and until = None and with_stats = None and per_page = None and page = None
       and branch = "''main''" and content = "''x''" and commit_message = "''m''"
       and author_email = None and author_name = None and encoding = Omitted and b = True
       and start_branch = None]
  by simp

text \<open>
  A boolean in a JSON body that is a string (\<open>create_gitlab_commit\<close>), and a boolean in a
  query map that is not a string (\<open>get_raw_gitlab_file\<close>).
\<close>

theorem boolean_encoding_counterexample:
  "map_of (the (json (create_gitlab_commit_request (IntId 42) ''main'' ''msg'' [] None None
       (Some True) None None None None \<lparr>api_url = ''https://gitlab.com/api/v4'', token = ''t''\<rparr>)))
      ''force'' = Some (PStr ''true'')
   \<and> PStr ''true'' \<noteq> PBool True
   \<and> map_of (params (get_raw_gitlab_file_request ''42'' ''README.md'' ''main'' (Passed True)
       \<lparr>api_url = ''https://gitlab.com/api/v4'', token = ''t''\<rparr>)) ''lfs'' = Some (PBool True)
   \<and> PBool True \<noteq> PStr ''true''"
  by (simp add: create_gitlab_commit_request_def put_if_not_None_def dict_set_def
      lower_def str_bool_def lower_char_def get_raw_gitlab_file_request_def)

end
